theory Spec2Isabelle
  imports Complex_Main
begin

section \<open>TrainModels: the model-comparison pipeline of train\_model.py\<close>

text \<open>
  The class \<open>TrainModels\<close> of \<^verbatim>\<open>train_model.py\<close> splits a data frame, benchmarks two
  linear classifiers on TF-IDF features, tunes and refits the better one, trains a small
  dense network and returns whichever of the two final models scores higher.

  Conventions of the embedding:
  \<^item> a Python exception is a value \<open>Inl e\<close> of \<open>error + 'a\<close>, and it ends the run;
  \<^item> accuracy scores are Python floats; they are compared and divided here as reals
    (no score of a run is NaN, and on the other floats \<open>>\<close> and \<open>>=\<close> are the order of
    the reals);
  \<^item> the classes and functions of scikit-learn and Keras that the script calls are not
    part of the repository: they are the fields of a record \<open>library\<close>, over which every
    definition is parametrised. A call is assumed to return; one run of the (randomised)
    library is one such record;
  \<^item> \<^verbatim>\<open>print\<close> and the timing calls do not influence any result and are left out;
  \<^item> a name with leading underscores (\<^verbatim>\<open>__benchmark\<close>) is written without them.
\<close>

subsection \<open>Python values\<close>

datatype error = ValueError | KeyError | IndexError

type_synonym label = string

text \<open>A row of the data frame: the columns \<^verbatim>\<open>text\<close> and \<^verbatim>\<open>gender\<close>.\<close>

record row =
  row_text :: string
  gender :: label

text \<open>
  A \<^verbatim>\<open>dict\<close> is the list of its items in insertion order. \<^verbatim>\<open>d[k] = v\<close> replaces the
  value of a key that is present and appends a new key at the end.
\<close>

type_synonym ('k, 'v) dict = "('k \<times> 'v) list"

fun dict_set :: "('k, 'v) dict \<Rightarrow> 'k \<Rightarrow> 'v \<Rightarrow> ('k, 'v) dict" where
  "dict_set [] k v = [(k, v)]"
| "dict_set ((k', v') # d) k v =
     (if k' = k then (k', v) # d else (k', v') # dict_set d k v)"

text \<open>\<^verbatim>\<open>d[k]\<close> raises \<^verbatim>\<open>KeyError\<close> on a missing key.\<close>

definition dict_getitem :: "('k, 'v) dict \<Rightarrow> 'k \<Rightarrow> error + 'v" where
  "dict_getitem d k = (case map_of d k of None \<Rightarrow> Inl KeyError | Some v \<Rightarrow> Inr v)"

text \<open>
  \<^verbatim>\<open>max(iterable, key=f)\<close>: \<^verbatim>\<open>ValueError\<close> on an empty iterable; otherwise the first
  item is the candidate, and a later item replaces the candidate only when its key is
  strictly greater.
\<close>

definition max_step :: "('a \<Rightarrow> real) \<Rightarrow> 'a \<Rightarrow> 'a \<Rightarrow> 'a" where
  "max_step key best item = (if key item > key best then item else best)"

fun py_max :: "('a \<Rightarrow> real) \<Rightarrow> 'a list \<Rightarrow> error + 'a" where
  "py_max key [] = Inl ValueError"
| "py_max key (x # xs) = Inr (foldl (max_step key) x xs)"

subsection \<open>The model selector\<close>

text \<open>
  \<^verbatim>\<open>best = max(scores.items(), key=operator.itemgetter(1))[0]\<close>
\<close>

definition get_best_score :: "(string, real) dict \<Rightarrow> error + string" where
  "get_best_score scores =
     (case py_max snd scores of Inl e \<Rightarrow> Inl e | Inr best \<Rightarrow> Inr (fst best))"

subsection \<open>The library interface\<close>

text \<open>
  \<^verbatim>\<open>TfidfVectorizer(stop_words=...)\<close>: an unfitted vectorizer is its constructor argument,
  \<^verbatim>\<open>None\<close> (the default, no filtering) or the name of a stop-word list.
\<close>

datatype TfidfVectorizer = TfidfVectorizer (stop_words: "string option")

text \<open>
  \<^verbatim>\<open>Pipeline(steps=[('vect', ...), ('clf', ...)])\<close>: the two steps under their names,
  and \<^verbatim>\<open>GridSearchCV(estimator, param_grid, scoring=...)\<close> with what a fitted search
  exposes (\<open>gs_best_params\<close> is \<^verbatim>\<open>best_params_\<close>, \<open>gs_best_score\<close> is \<^verbatim>\<open>best_score_\<close>).
  \<open>estimator_after\<close> is the state in which the search leaves the classifier
  object it was given: the script does not say whether the library fits the object
  itself or a copy, so the model lets the library decide.
\<close>

record 'clf Pipeline =
  vect :: TfidfVectorizer
  clf :: 'clf

record 'clf GridSearchCV =
  estimator :: "'clf Pipeline"
  param_grid :: "(string, string option list) dict"
  scoring :: string

record 'clf grid_search_result =
  gs_best_params :: "(string, string option) dict"
  gs_best_score :: real
  estimator_after :: 'clf

text \<open>\<^verbatim>\<open>Tokenizer(num_words=...)\<close>; \<open>word_index\<close> is what \<^verbatim>\<open>fit_on_texts\<close> learns.\<close>

record 'wi Tokenizer =
  num_words :: nat
  word_index :: "'wi option"

text \<open>
  \<^verbatim>\<open>Dense(output_dim=..., init=..., activation=..., input_dim=...)\<close> and the
  \<^verbatim>\<open>Sequential\<close> model: its layers in the order added, what \<^verbatim>\<open>compile\<close> set, and the
  weights that \<^verbatim>\<open>fit\<close> learns.
\<close>

record Dense =
  output_dim :: nat
  init :: string
  activation :: string
  input_dim :: "nat option"

record 'w Sequential =
  layers :: "Dense list"
  loss :: "string option"
  optimizer :: "string option"
  metrics :: "string list"
  weights :: "'w option"

text \<open>
  The calls into scikit-learn and Keras. \<open>'clf\<close> is the state of a classifier object,
  \<open>'x\<close> a TF-IDF matrix, \<open>'vec\<close> a fitted vectorizer, \<open>'wi\<close> a tokenizer's word index,
  \<open>'le\<close> a fitted label encoder, \<open>'m\<close> a count matrix, \<open>'w\<close> the weights of a network.
  \<open>fit\<close> returns the state of the classifier after fitting; Python changes the object
  in place. The last argument of \<open>sequential_fit\<close> is \<^verbatim>\<open>epochs\<close>, and
  \<open>sequential_evaluate\<close> returns the pair \<^verbatim>\<open>[loss, accuracy]\<close>.
\<close>

record ('clf, 'x, 'vec, 'wi, 'le, 'm, 'w) library =
  train_test_split :: "row list \<Rightarrow> real \<Rightarrow> row list \<times> row list"
  SGDClassifier :: 'clf
  Perceptron :: 'clf
  fit :: "'clf \<Rightarrow> 'x \<Rightarrow> label list \<Rightarrow> 'clf"
  predict :: "'clf \<Rightarrow> 'x \<Rightarrow> label list"
  fit_transform :: "TfidfVectorizer \<Rightarrow> string list \<Rightarrow> 'vec \<times> 'x"
  transform :: "'vec \<Rightarrow> string list \<Rightarrow> 'x"
  grid_search_fit ::
    "'clf GridSearchCV \<Rightarrow> string list \<Rightarrow> label list \<Rightarrow> 'clf grid_search_result"
  label_encoder_fit :: "label list \<Rightarrow> 'le"
  label_encoder_transform :: "'le \<Rightarrow> label list \<Rightarrow> nat list"
  fit_on_texts :: "string list \<Rightarrow> 'wi"
  texts_to_matrix :: "'wi Tokenizer \<Rightarrow> string list \<Rightarrow> string \<Rightarrow> 'm"
  sequential_fit :: "'w Sequential \<Rightarrow> 'm \<Rightarrow> nat list list \<Rightarrow> nat \<Rightarrow> 'w"
  sequential_evaluate :: "'w Sequential \<Rightarrow> 'm \<Rightarrow> nat list list \<Rightarrow> real \<times> real"

text \<open>
  Modelled from the spec: \<^verbatim>\<open>sklearn.metrics.accuracy_score\<close>, which is not in the
  repository. The spec: the accuracy is the "fraction of exact label matches"
  between predictions and true labels, and "empty partitions" and "label-count
  mismatches" are failures that the library raises.
\<close>

definition accuracy_score :: "label list \<Rightarrow> label list \<Rightarrow> error + real" where
  "accuracy_score y_true y_pred =
     (if y_true = [] \<or> length y_pred \<noteq> length y_true then Inl ValueError
      else Inr (real (length (filter (\<lambda>(t, p). t = p) (zip y_true y_pred)))
                / real (length y_true)))"

text \<open>
  Modelled from the spec: \<^verbatim>\<open>keras.utils.to_categorical\<close>, which is not in the
  repository. The spec: a one-hot vector is the "representation of a categorical label
  as a vector with a single 1 at the label's index", and a label that mismatches the
  class count is a failure that the library raises.
\<close>

definition one_hot :: "nat \<Rightarrow> nat \<Rightarrow> nat list" where
  "one_hot num_classes y = map (\<lambda>i. if i = y then 1 else 0) [0 ..< num_classes]"

definition to_categorical :: "nat list \<Rightarrow> nat \<Rightarrow> error + nat list list" where
  "to_categorical ys num_classes =
     (if \<exists>y \<in> set ys. num_classes \<le> y then Inl IndexError
      else Inr (map (one_hot num_classes) ys))"

text \<open>
  Modelled from the spec: decoding a one-hot vector, which the repository does not do
  anywhere. The spec: the vector has "a single 1 at the label's index", so the label is
  the index of the first 1; a vector without a 1 decodes to nothing.
\<close>

fun one_hot_decode :: "nat list \<Rightarrow> nat option" where
  "one_hot_decode [] = None"
| "one_hot_decode (v # vs) =
     (if v = 1 then Some 0 else map_option Suc (one_hot_decode vs))"

subsection \<open>The object \<open>TrainModels\<close>\<close>

text \<open>
  The two classifier objects that \<^verbatim>\<open>__init__\<close> creates, and the fields of \<^verbatim>\<open>self\<close>.
  The registry \<open>clfs\<close> (\<^verbatim>\<open>self.__clfs\<close>) maps a name to a reference; \<open>heap\<close> holds the
  state of the object behind each reference, so that fitting a classifier through any
  alias of it is seen through the registry too.
\<close>

datatype addr = SGD_ref | Perceptron_ref

record ('clf, 'x, 'wi, 'le) TrainModels =
  df :: "row list"
  train :: "row list"
  test :: "row list"
  clfs :: "(string, addr) dict"
  heap :: "addr \<Rightarrow> 'clf"
  X_train :: 'x
  X_test :: 'x
  Y_train :: "label list"
  Y_test :: "label list"
  tokenizer :: "'wi Tokenizer option"
  lb_make :: "'le option"

text \<open>What the registry shows: each name with the state of its classifier.\<close>

definition registry :: "('clf, 'x, 'wi, 'le) TrainModels \<Rightarrow> (string, 'clf) dict" where
  "registry self = map (\<lambda>(name, a). (name, heap self a)) (clfs self)"

text \<open>
  \<^verbatim>\<open>__tf_idf_feature_extraction\<close> reads \<^verbatim>\<open>self.train.text\<close> and \<^verbatim>\<open>self.test.text\<close>,
  the only fields set when \<^verbatim>\<open>__init__\<close> calls it.
\<close>

definition tf_idf_feature_extraction ::
  "('clf, 'x, 'vec, 'wi, 'le, 'm, 'w) library \<Rightarrow> row list \<Rightarrow> row list \<Rightarrow> 'x \<times> 'x" where
  "tf_idf_feature_extraction lib train_rows test_rows =
     (let vectorizer = TfidfVectorizer None;
          fitted = fit_transform lib vectorizer (map row_text train_rows);
          vec_train = snd fitted;
          vec_test = transform lib (fst fitted) (map row_text test_rows)
      in (vec_train, vec_test))"

definition init ::
  "('clf, 'x, 'vec, 'wi, 'le, 'm, 'w) library \<Rightarrow> row list \<Rightarrow> ('clf, 'x, 'wi, 'le) TrainModels" where
  "init lib data_frame =
     (let split = train_test_split lib data_frame (2 / 10);
          features = tf_idf_feature_extraction lib (fst split) (snd split)
      in \<lparr> df = data_frame,
           train = fst split,
           test = snd split,
           clfs = [(''SVM'', SGD_ref), (''Perceptron'', Perceptron_ref)],
           heap = (\<lambda>a. case a of SGD_ref \<Rightarrow> SGDClassifier lib
                               | Perceptron_ref \<Rightarrow> Perceptron lib),
           X_train = fst features,
           X_test = snd features,
           Y_train = map gender (fst split),
           Y_test = map gender (snd split),
           tokenizer = None,
           lb_make = None \<rparr>)"

text \<open>
  \<^verbatim>\<open>__benchmark(clf)\<close>: \<^verbatim>\<open>clf.fit\<close> changes the object \<open>clf\<close> refers to; the score is
  the accuracy of its predictions on the test partition.
\<close>

definition benchmark ::
  "('clf, 'x, 'vec, 'wi, 'le, 'm, 'w) library \<Rightarrow> ('clf, 'x, 'wi, 'le) TrainModels \<Rightarrow> addr
     \<Rightarrow> error + (real \<times> ('clf, 'x, 'wi, 'le) TrainModels)" where
  "benchmark lib self c =
     (let self' = self\<lparr>heap := (heap self)(c := fit lib (heap self c) (X_train self) (Y_train self))\<rparr>;
          pred = predict lib (heap self' c) (X_test self')
      in case accuracy_score (Y_test self') pred of
           Inl e \<Rightarrow> Inl e
         | Inr score \<Rightarrow> Inr (score, self'))"

text \<open>
  \<^verbatim>\<open>optimize(best_func)\<close>: a grid search over the pipeline of a fresh vectorizer and
  the classifier, fitted on the training partition.
\<close>

definition optimize_search ::
  "('clf, 'x, 'wi, 'le) TrainModels \<Rightarrow> addr \<Rightarrow> 'clf GridSearchCV" where
  "optimize_search self best_func =
     (let nb_clf = \<lparr>vect = TfidfVectorizer None, clf = heap self best_func\<rparr>;
          parameters = [(''vect__stop_words'', [None, Some ''english''])]
      in \<lparr>estimator = nb_clf, param_grid = parameters, scoring = ''accuracy''\<rparr>)"

definition optimize ::
  "('clf, 'x, 'vec, 'wi, 'le, 'm, 'w) library \<Rightarrow> ('clf, 'x, 'wi, 'le) TrainModels \<Rightarrow> addr
     \<Rightarrow> (string, string option) dict \<times> ('clf, 'x, 'wi, 'le) TrainModels" where
  "optimize lib self best_func =
     (let gs_clf = grid_search_fit lib (optimize_search self best_func)
                     (map row_text (train self)) (map gender (train self))
      in (gs_best_params gs_clf,
          self\<lparr>heap := (heap self)(best_func := estimator_after gs_clf)\<rparr>))"

text \<open>
  \<^verbatim>\<open>best_params.get('vect__stop_words')\<close>: the value of the key, \<^verbatim>\<open>None\<close> when the key
  is missing.
\<close>

definition dict_get :: "('k, 'v option) dict \<Rightarrow> 'k \<Rightarrow> 'v option" where
  "dict_get d k = (case map_of d k of None \<Rightarrow> None | Some v \<Rightarrow> v)"

text \<open>
  \<^verbatim>\<open>__run_best_model(best_params, best_clf)\<close> returns the score and the classifier
  object (its reference).
\<close>

definition run_best_model ::
  "('clf, 'x, 'vec, 'wi, 'le, 'm, 'w) library \<Rightarrow> ('clf, 'x, 'wi, 'le) TrainModels
     \<Rightarrow> (string, string option) dict \<Rightarrow> string
     \<Rightarrow> error + ((real \<times> addr) \<times> ('clf, 'x, 'wi, 'le) TrainModels)" where
  "run_best_model lib self best_params best_clf =
     (let tf_idf = TfidfVectorizer (dict_get best_params ''vect__stop_words'');
          fitted = fit_transform lib tf_idf (map row_text (train self));
          train_matrix = snd fitted;
          test_matrix = transform lib (fst fitted) (map row_text (test self))
      in case dict_getitem (clfs self) best_clf of
           Inl e \<Rightarrow> Inl e
         | Inr clf_func \<Rightarrow>
             (let self' = self\<lparr>heap := (heap self)
                            (clf_func := fit lib (heap self clf_func) train_matrix
                                           (map gender (train self)))\<rparr>;
                  pred = predict lib (heap self' clf_func) test_matrix
              in case accuracy_score (map gender (test self')) pred of
                   Inl e \<Rightarrow> Inl e
                 | Inr score \<Rightarrow> Inr ((score, clf_func), self')))"

text \<open>\<^verbatim>\<open>build_matrix\<close> and \<^verbatim>\<open>train_sequential\<close>.\<close>

definition build_matrix ::
  "('clf, 'x, 'vec, 'wi, 'le, 'm, 'w) library \<Rightarrow> ('clf, 'x, 'wi, 'le) TrainModels
     \<Rightarrow> error + (('m \<times> 'm \<times> nat list list \<times> nat list list) \<times> ('clf, 'x, 'wi, 'le) TrainModels)" where
  "build_matrix lib self =
     (let self1 = self\<lparr>lb_make := Some (label_encoder_fit lib (Y_train self))\<rparr>;
          tokenizer0 = \<lparr>num_words = 2000, word_index = None\<rparr>;
          x_array_train = map row_text (train self1);
          x_array_test = map row_text (test self1);
          tokenizer1 = tokenizer0\<lparr>word_index := Some (fit_on_texts lib x_array_train)\<rparr>;
          x_train_matrix = texts_to_matrix lib tokenizer1 x_array_train ''count'';
          x_test_matrix = texts_to_matrix lib tokenizer1 x_array_test ''count'';
          lb = label_encoder_fit lib (Y_train self);
          y_train_numbers = label_encoder_transform lib lb (Y_train self1);
          y_test_numbers = label_encoder_transform lib lb (Y_test self1)
      in case to_categorical y_train_numbers 3 of
           Inl e \<Rightarrow> Inl e
         | Inr y_train_matrix \<Rightarrow>
             (case to_categorical y_test_numbers 3 of
                Inl e \<Rightarrow> Inl e
              | Inr y_test_matrix \<Rightarrow>
                  Inr ((x_train_matrix, x_test_matrix, y_train_matrix, y_test_matrix),
                       self1\<lparr>tokenizer := Some tokenizer1\<rparr>)))"

definition add :: "'w Sequential \<Rightarrow> Dense \<Rightarrow> 'w Sequential" where
  "add model layer = model\<lparr>layers := layers model @ [layer]\<rparr>"

definition compile ::
  "'w Sequential \<Rightarrow> string \<Rightarrow> string \<Rightarrow> string list \<Rightarrow> 'w Sequential" where
  "compile model l opt ms = model\<lparr>loss := Some l, optimizer := Some opt, metrics := ms\<rparr>"

definition train_sequential ::
  "('clf, 'x, 'vec, 'wi, 'le, 'm, 'w) library \<Rightarrow> ('clf, 'x, 'wi, 'le) TrainModels
     \<Rightarrow> error + (('w Sequential \<times> real) \<times> ('clf, 'x, 'wi, 'le) TrainModels)" where
  "train_sequential lib self =
     (case build_matrix lib self of
        Inl e \<Rightarrow> Inl e
      | Inr ((x_train, x_test, y_train, y_test), self') \<Rightarrow>
          (let model0 = \<lparr>layers = [], loss = None, optimizer = None, metrics = [],
                         weights = None\<rparr>;
               model1 = add model0 \<lparr>output_dim = 6, init = ''uniform'',
                          activation = ''relu'', input_dim = Some 2000\<rparr>;
               model2 = add model1 \<lparr>output_dim = 6, init = ''uniform'',
                          activation = ''relu'', input_dim = None\<rparr>;
               model3 = add model2 \<lparr>output_dim = 3, init = ''uniform'',
                          activation = ''sigmoid'', input_dim = None\<rparr>;
               model4 = compile model3 ''binary_crossentropy'' ''adam'' [''accuracy''];
               model5 = model4\<lparr>weights := Some (sequential_fit lib model4 x_train y_train 5)\<rparr>;
               keras_score = sequential_evaluate lib model5 x_test y_test
           in Inr ((model5, snd keras_score), self')))"

text \<open>
  \<^verbatim>\<open>train_models\<close>. The loop over \<^verbatim>\<open>self.__clfs.items()\<close> benchmarks each registered
  object and stores its score under its name. The result is one of the two final
  models: the classifier object or the network.
\<close>

datatype 'w model = SimpleModel addr | KerasModel "'w Sequential"

fun benchmark_all ::
  "('clf, 'x, 'vec, 'wi, 'le, 'm, 'w) library \<Rightarrow> ('clf, 'x, 'wi, 'le) TrainModels
     \<Rightarrow> (string, addr) dict \<Rightarrow> (string, real) dict
     \<Rightarrow> error + ((string, real) dict \<times> ('clf, 'x, 'wi, 'le) TrainModels)" where
  "benchmark_all lib self [] scores = Inr (scores, self)"
| "benchmark_all lib self ((name, c) # items) scores =
     (case benchmark lib self c of
        Inl e \<Rightarrow> Inl e
      | Inr (score, self') \<Rightarrow> benchmark_all lib self' items (dict_set scores name score))"

text \<open>
  Lines 73 to 81 of \<^verbatim>\<open>train_models\<close>: everything up to the final comparison. The
  result is \<^verbatim>\<open>(simple_score, simple_model)\<close> and \<^verbatim>\<open>(keras_model, keras_score)\<close>.
\<close>

definition train_models_candidates ::
  "('clf, 'x, 'vec, 'wi, 'le, 'm, 'w) library \<Rightarrow> ('clf, 'x, 'wi, 'le) TrainModels
     \<Rightarrow> error + (((real \<times> addr) \<times> ('w Sequential \<times> real)) \<times> ('clf, 'x, 'wi, 'le) TrainModels)" where
  "train_models_candidates lib self =
     (case benchmark_all lib self (clfs self) [] of
        Inl e \<Rightarrow> Inl e
      | Inr (scores, self1) \<Rightarrow>
     (case get_best_score scores of
        Inl e \<Rightarrow> Inl e
      | Inr best \<Rightarrow>
     (case dict_getitem (clfs self1) best of
        Inl e \<Rightarrow> Inl e
      | Inr best_func \<Rightarrow>
     (case optimize lib self1 best_func of
        (best_params, self2) \<Rightarrow>
     (case run_best_model lib self2 best_params best of
        Inl e \<Rightarrow> Inl e
      | Inr (simple, self3) \<Rightarrow>
     (case train_sequential lib self3 of
        Inl e \<Rightarrow> Inl e
      | Inr (keras, self4) \<Rightarrow> Inr ((simple, keras), self4)))))))"

text \<open>
  Lines 82 to 85:
  \<^verbatim>\<open>if keras_score >= simple_score: return keras_model else: return simple_model\<close>
\<close>

definition train_models ::
  "('clf, 'x, 'vec, 'wi, 'le, 'm, 'w) library \<Rightarrow> ('clf, 'x, 'wi, 'le) TrainModels
     \<Rightarrow> error + ('w model \<times> ('clf, 'x, 'wi, 'le) TrainModels)" where
  "train_models lib self =
     (case train_models_candidates lib self of
        Inl e \<Rightarrow> Inl e
      | Inr (((simple_score, simple_model), (keras_model, keras_score)), self4) \<Rightarrow>
          (if keras_score \<ge> simple_score then Inr (KerasModel keras_model, self4)
           else Inr (SimpleModel simple_model, self4)))"

subsection \<open>A small instance of the library\<close>

text \<open>
  A library to run the pipeline on: the split keeps the first row for testing; a
  classifier is fitted to the first label it sees and predicts that label for every
  row; the vectorizer and the tokenizer return the texts themselves; the search picks
  no stop-word filtering and leaves the classifier object as it was; the label encoder
  numbers the labels in their order of first appearance; the network evaluates to
  \<^verbatim>\<open>[loss, accuracy] = [0, 1]\<close>.
\<close>

definition toy_library ::
  "(label option, string list, unit, unit, label list, string list, unit) library" where
  "toy_library =
     \<lparr> train_test_split = (\<lambda>rows test_size. (drop 1 rows, take 1 rows)),
       SGDClassifier = None,
       Perceptron = None,
       fit = (\<lambda>c x y. case y of [] \<Rightarrow> c | l # _ \<Rightarrow> Some l),
       predict = (\<lambda>c x. map (\<lambda>_. case c of None \<Rightarrow> [] | Some l \<Rightarrow> l) x),
       fit_transform = (\<lambda>v texts. ((), texts)),
       transform = (\<lambda>v texts. texts),
       grid_search_fit = (\<lambda>gs texts labels.
          \<lparr> gs_best_params = [(''vect__stop_words'', None)],
            gs_best_score = 1,
            estimator_after = clf (estimator gs) \<rparr>),
       label_encoder_fit = remdups,
       label_encoder_transform =
         (\<lambda>le labels. map (\<lambda>l. length (takeWhile (\<lambda>c. c \<noteq> l) le)) labels),
       fit_on_texts = (\<lambda>texts. ()),
       texts_to_matrix = (\<lambda>tok texts mode. texts),
       sequential_fit = (\<lambda>model x y n. ()),
       sequential_evaluate = (\<lambda>model x y. (0, 1)) \<rparr>"

definition toy_data_frame :: "row list" where
  "toy_data_frame =
     [ \<lparr>row_text = ''foo'', gender = ''male''\<rparr>,
       \<lparr>row_text = ''foo'', gender = ''male''\<rparr>,
       \<lparr>row_text = ''bar'', gender = ''female''\<rparr>,
       \<lparr>row_text = ''foo'', gender = ''male''\<rparr>,
       \<lparr>row_text = ''bar'', gender = ''female''\<rparr> ]"

definition toy_network :: "unit Sequential" where
  "toy_network =
     \<lparr> layers =
         [ \<lparr>output_dim = 6, init = ''uniform'', activation = ''relu'', input_dim = Some 2000\<rparr>,
           \<lparr>output_dim = 6, init = ''uniform'', activation = ''relu'', input_dim = None\<rparr>,
           \<lparr>output_dim = 3, init = ''uniform'', activation = ''sigmoid'', input_dim = None\<rparr> ],
       loss = Some ''binary_crossentropy'',
       optimizer = Some ''adam'',
       metrics = [''accuracy''],
       weights = Some () \<rparr>"

definition toy_self :: "(label option, string list, unit, label list) TrainModels" where
  "toy_self = init toy_library toy_data_frame"

text \<open>
  A data frame with four labels: its label codes reach 3, so \<open>to_categorical\<close> with 3
  classes raises.
\<close>

definition toy_four_labels :: "row list" where
  "toy_four_labels =
     [ \<lparr>row_text = ''foo'', gender = ''male''\<rparr>,
       \<lparr>row_text = ''foo'', gender = ''male''\<rparr>,
       \<lparr>row_text = ''bar'', gender = ''female''\<rparr>,
       \<lparr>row_text = ''baz'', gender = ''brand''\<rparr>,
       \<lparr>row_text = ''qux'', gender = ''unknown''\<rparr> ]"

subsection \<open>A second instance, in which the stop words matter\<close>

text \<open>
  A library whose vectorizer depends on its stop-word setting and whose classifier
  depends on the features: with a stop-word list the vectorizer turns the text \<open>the\<close>
  into the empty text, and it keeps its setting for \<open>transform\<close>; a fitted classifier is
  the list of the training features with their labels, and it predicts the label of
  the first training row with the same feature. The rest is as in the first instance.
\<close>

definition strip_stop_words :: "string option \<Rightarrow> string \<Rightarrow> string" where
  "strip_stop_words sw t =
     (case sw of None \<Rightarrow> t | Some _ \<Rightarrow> (if t = ''the'' then [] else t))"

definition lookup_library ::
  "((string \<times> label) list, string list, string option, unit, label list, string list, unit)
     library" where
  "lookup_library =
     \<lparr> train_test_split = (\<lambda>rows test_size. (drop 1 rows, take 1 rows)),
       SGDClassifier = [],
       Perceptron = [],
       fit = (\<lambda>c x y. zip x y),
       predict = (\<lambda>c x. map (\<lambda>t. case map_of c t of None \<Rightarrow> [] | Some l \<Rightarrow> l) x),
       fit_transform =
         (\<lambda>v texts. (stop_words v, map (strip_stop_words (stop_words v)) texts)),
       transform = (\<lambda>vec texts. map (strip_stop_words vec) texts),
       grid_search_fit = (\<lambda>gs texts labels.
          \<lparr> gs_best_params = [(''vect__stop_words'', None)],
            gs_best_score = 1,
            estimator_after = clf (estimator gs) \<rparr>),
       label_encoder_fit = remdups,
       label_encoder_transform =
         (\<lambda>le labels. map (\<lambda>l. length (takeWhile (\<lambda>c. c \<noteq> l) le)) labels),
       fit_on_texts = (\<lambda>texts. ()),
       texts_to_matrix = (\<lambda>tok texts mode. texts),
       sequential_fit = (\<lambda>model x y n. ()),
       sequential_evaluate = (\<lambda>model x y. (0, 1)) \<rparr>"

text \<open>
  The test row is the first one. Without stop-word filtering its text \<open>the\<close> is found
  among the training rows with the right label; with filtering it becomes the empty
  text, which the training rows have first under the other label.
\<close>

definition lookup_data_frame :: "row list" where
  "lookup_data_frame =
     [ \<lparr>row_text = ''the'', gender = ''female''\<rparr>,
       \<lparr>row_text = [], gender = ''male''\<rparr>,
       \<lparr>row_text = ''the'', gender = ''female''\<rparr> ]"

definition lookup_self ::
  "((string \<times> label) list, string list, unit, label list) TrainModels" where
  "lookup_self = init lookup_library lookup_data_frame"

section \<open>Properties\<close>

text \<open>The equations that evaluate the pipeline on the small library instance.\<close>

lemmas toy_defs = toy_self_def init_def toy_library_def toy_data_frame_def
  tf_idf_feature_extraction_def Let_def accuracy_score_def

lemmas lookup_defs = lookup_self_def init_def lookup_library_def lookup_data_frame_def
  strip_stop_words_def tf_idf_feature_extraction_def Let_def accuracy_score_def

lemmas pipeline_defs = train_models_candidates_def benchmark_def get_best_score_def
  max_step_def dict_getitem_def optimize_def optimize_search_def run_best_model_def
  dict_get_def train_sequential_def build_matrix_def to_categorical_def one_hot_def
  add_def compile_def toy_network_def

subsection \<open>The model selector returns the first maximum\<close>

lemma foldl_max_step_invariant:
  assumes "i < length zs"
    and "\<forall>j < length zs. key (zs ! j) \<le> key (zs ! i)"
    and "\<forall>j < i. key (zs ! j) < key (zs ! i)"
  shows "\<exists>k < length (zs @ ys).
      foldl (max_step key) (zs ! i) ys = (zs @ ys) ! k
    \<and> (\<forall>j < length (zs @ ys). key ((zs @ ys) ! j) \<le> key ((zs @ ys) ! k))
    \<and> (\<forall>j < k. key ((zs @ ys) ! j) < key ((zs @ ys) ! k))"
  using assms
proof (induction ys arbitrary: zs i)
  case Nil
  then show ?case by auto
next
  case (Cons y ys)
  define ws where "ws = zs @ [y]"
  define m where "m = (if key y > key (zs ! i) then length zs else i)"
  have m_less: "m < length ws"
    using Cons.prems(1) by (simp add: m_def ws_def)
  have cand: "max_step key (zs ! i) y = ws ! m"
    using Cons.prems(1) by (simp add: max_step_def m_def ws_def nth_append)
  have ge: "\<forall>j < length ws. key (ws ! j) \<le> key (ws ! m)"
    using Cons.prems(1,2) by (auto simp: m_def ws_def nth_append less_Suc_eq)
  have first: "\<forall>j < m. key (ws ! j) < key (ws ! m)"
    using Cons.prems by (auto simp: m_def ws_def nth_append less_Suc_eq)
  from Cons.IH [OF m_less ge first] show ?case
    by (simp add: cand ws_def)
qed

lemma foldl_max_step_first:
  "\<exists>i < length (x # xs).
      foldl (max_step key) x xs = (x # xs) ! i
    \<and> (\<forall>j < length (x # xs). key ((x # xs) ! j) \<le> key ((x # xs) ! i))
    \<and> (\<forall>j < i. key ((x # xs) ! j) < key ((x # xs) ! i))"
  using foldl_max_step_invariant [of 0 "[x]" key xs] by simp

text \<open>
  C2. For a non-empty mapping from model name to score, \<open>get_best_score\<close> returns the
  name of an item whose score is maximal, and that item is the first one with the
  maximal score in the mapping's insertion order (every earlier item scores strictly
  less). On the empty mapping the call fails (\<^verbatim>\<open>max\<close> raises \<^verbatim>\<open>ValueError\<close>), so
  non-emptiness is a precondition.
\<close>

theorem get_best_score_first_maximum:
  "get_best_score [] = Inl ValueError
   \<and> (scores \<noteq> [] \<longrightarrow>
        (\<exists>i < length scores.
            get_best_score scores = Inr (fst (scores ! i))
          \<and> (\<forall>j < length scores. snd (scores ! j) \<le> snd (scores ! i))
          \<and> (\<forall>j < i. snd (scores ! j) < snd (scores ! i))))"
proof (intro conjI impI)
  show "get_best_score [] = Inl ValueError"
    by (simp add: get_best_score_def)
next
  assume "scores \<noteq> []"
  then obtain x xs where s: "scores = x # xs" by (cases scores) auto
  from foldl_max_step_first [of x xs snd] obtain i where
    "i < length (x # xs)"
    "foldl (max_step snd) x xs = (x # xs) ! i"
    "\<forall>j < length (x # xs). snd ((x # xs) ! j) \<le> snd ((x # xs) ! i)"
    "\<forall>j < i. snd ((x # xs) ! j) < snd ((x # xs) ! i)"
    by blast
  then show "\<exists>i < length scores.
            get_best_score scores = Inr (fst (scores ! i))
          \<and> (\<forall>j < length scores. snd (scores ! j) \<le> snd (scores ! i))
          \<and> (\<forall>j < i. snd (scores ! j) < snd (scores ! i))"
    unfolding s get_best_score_def by (intro exI [of _ i]) simp
qed

theorem get_best_score_first_maximum_witness:
  "[(''SVM'', 1 / 2), (''Perceptron'', 1 / 2)] \<noteq> ([] :: (string, real) dict)
   \<and> get_best_score [(''SVM'', 1 / 2), (''Perceptron'', 1 / 2)] = Inr ''SVM''"
  using get_best_score_first_maximum [of "[(''SVM'', 1 / 2), (''Perceptron'', 1 / 2)]"]
  by (simp add: get_best_score_def max_step_def)

subsection \<open>The final comparison\<close>

text \<open>
  C1, as the code has it. Once the tuned classical model's accuracy and the network's
  accuracy are computed, \<open>train_models\<close> returns the model with the strictly higher
  accuracy, and when the two accuracies are equal it returns the network (the test is
  \<^verbatim>\<open>keras_score >= simple_score\<close>).
\<close>

theorem train_models_returns_higher:
  assumes "train_models_candidates lib self =
             Inr (((simple_score, simple_model), (keras_model, keras_score)), self')"
  shows "(simple_score < keras_score \<longrightarrow>
            train_models lib self = Inr (KerasModel keras_model, self'))
       \<and> (keras_score < simple_score \<longrightarrow>
            train_models lib self = Inr (SimpleModel simple_model, self'))
       \<and> (keras_score = simple_score \<longrightarrow>
            train_models lib self = Inr (KerasModel keras_model, self'))"
  using assms by (simp add: train_models_def)

text \<open>
  A run in which the classifier scores 1 and the network 1/2: the classifier object is
  returned.
\<close>

theorem train_models_returns_higher_witness:
  "\<exists>self'.
      train_models_candidates
        (toy_library\<lparr>sequential_evaluate := \<lambda>model x y. (0, 1 / 2)\<rparr>) toy_self
        = Inr (((1, SGD_ref), (toy_network, 1 / 2)), self')
    \<and> train_models
        (toy_library\<lparr>sequential_evaluate := \<lambda>model x y. (0, 1 / 2)\<rparr>) toy_self
        = Inr (SimpleModel SGD_ref, self')"
proof -
  let ?lib = "toy_library\<lparr>sequential_evaluate := \<lambda>model x y. (0, 1 / 2)\<rparr>"
  have "\<exists>self'. train_models_candidates ?lib toy_self =
             Inr (((1, SGD_ref), (toy_network, 1 / 2)), self')"
    by (simp add: pipeline_defs toy_defs)
  then obtain self' where c: "train_models_candidates ?lib toy_self =
             Inr (((1, SGD_ref), (toy_network, 1 / 2)), self')" ..
  from train_models_returns_higher [OF c] have
    "train_models ?lib toy_self = Inr (SimpleModel SGD_ref, self')" by simp
  with c show ?thesis by blast
qed

text \<open>
  The claim as the spec words it (on a tie the classical model is returned) fails: on
  the small library instance both accuracies are 1, and the network is returned.
\<close>

theorem train_models_tie_counterexample:
  "map_sum id fst (train_models_candidates toy_library toy_self)
      = Inr ((1, SGD_ref), (toy_network, 1))
   \<and> map_sum id fst (train_models toy_library toy_self) = Inr (KerasModel toy_network)"
  by (simp add: train_models_def pipeline_defs toy_defs)

subsection \<open>The benchmark's accuracy\<close>

lemma matches_le: "length (filter P (zip xs ys)) \<le> length xs"
  by (rule order_trans [OF length_filter_le]) simp

lemma accuracy_score_range:
  "accuracy_score y_true y_pred = Inr score \<Longrightarrow> 0 \<le> score \<and> score \<le> 1"
  using matches_le [of "\<lambda>(t, p). t = p" y_true y_pred]
  by (auto simp: accuracy_score_def split: if_splits)

text \<open>
  C8. For every classifier and every non-empty test partition (for which the
  classifier predicts one label per test row), \<open>benchmark\<close> reports an accuracy, and it
  lies in the closed interval from 0 to 1.
\<close>

theorem benchmark_accuracy_range:
  assumes "Y_test self \<noteq> []"
    and "length (predict lib (fit lib (heap self c) (X_train self) (Y_train self)) (X_test self))
           = length (Y_test self)"
  shows "\<exists>score self'. benchmark lib self c = Inr (score, self') \<and> 0 \<le> score \<and> score \<le> 1"
proof -
  let ?fitted = "fit lib (heap self c) (X_train self) (Y_train self)"
  let ?pred = "predict lib ?fitted (X_test self)"
  from assms obtain score where s: "accuracy_score (Y_test self) ?pred = Inr score"
    by (simp add: accuracy_score_def)
  then have "benchmark lib self c = Inr (score, self\<lparr>heap := (heap self)(c := ?fitted)\<rparr>)"
    by (simp add: benchmark_def Let_def)
  with accuracy_score_range [OF s] show ?thesis by blast
qed

theorem benchmark_accuracy_range_witness:
  "Y_test toy_self \<noteq> []
   \<and> length (predict toy_library
        (fit toy_library (heap toy_self SGD_ref) (X_train toy_self) (Y_train toy_self))
        (X_test toy_self)) = length (Y_test toy_self)
   \<and> (\<exists>score self'. benchmark toy_library toy_self SGD_ref = Inr (score, self')
         \<and> 0 \<le> score \<and> score \<le> 1)"
proof -
  have a: "Y_test toy_self \<noteq> []" by (simp add: toy_defs)
  have b: "length (predict toy_library
        (fit toy_library (heap toy_self SGD_ref) (X_train toy_self) (Y_train toy_self))
        (X_test toy_self)) = length (Y_test toy_self)" by (simp add: toy_defs)
  from a b benchmark_accuracy_range [OF a b] show ?thesis by blast
qed

subsection \<open>One-hot labels\<close>

lemma one_hot_decode_upt:
  "k \<le> y \<Longrightarrow> y < k + m \<Longrightarrow>
     one_hot_decode (map (\<lambda>i. if i = y then 1 else 0) [k ..< k + m]) = Some (y - k)"
proof (induction m arbitrary: k)
  case 0
  then show ?case by simp
next
  case (Suc m)
  show ?case
  proof (cases "k = y")
    case True
    then show ?thesis by (simp add: upt_rec)
  next
    case False
    with Suc.prems have "Suc k \<le> y" "y < Suc k + m" by simp_all
    from Suc.IH [OF this] False Suc.prems show ?thesis
      by (simp add: upt_rec [of k] Suc_diff_le)
  qed
qed

text \<open>
  C9. For every label code in \<open>{0, 1, 2}\<close>, encoding it as a 3-class one-hot vector, as
  \<open>build_matrix\<close> does with \<open>to_categorical\<close>, and decoding that vector gives the label
  code back.
\<close>

theorem one_hot_round_trip:
  assumes "y < 3"
  shows "to_categorical [y] 3 = Inr [one_hot 3 y] \<and> one_hot_decode (one_hot 3 y) = Some y"
  using assms one_hot_decode_upt [of 0 y 3]
  by (simp add: to_categorical_def one_hot_def)

theorem one_hot_round_trip_witness:
  "(2::nat) < 3 \<and> to_categorical [2] 3 = Inr [[0, 0, 1]] \<and> one_hot_decode [0, 0, 1] = Some 2"
  using one_hot_round_trip [of 2] by (simp add: one_hot_def upt_rec)

subsection \<open>The classifier registry\<close>

lemma benchmark_registry:
  assumes "benchmark lib self c = Inr (score, self1)"
  shows "clfs self1 = clfs self"
    and "heap self1 = (heap self)(c := fit lib (heap self c) (X_train self) (Y_train self))"
  using assms by (auto simp: benchmark_def Let_def split: sum.splits)

lemma benchmark_all_clfs:
  "benchmark_all lib self items scores = Inr (scores', self') \<Longrightarrow> clfs self' = clfs self"
proof (induction items arbitrary: self scores)
  case Nil
  then show ?case by simp
next
  case (Cons item items)
  obtain name c where i: "item = (name, c)" by (cases item)
  from Cons.prems i obtain score self1 where
    b: "benchmark lib self c = Inr (score, self1)"
    and r: "benchmark_all lib self1 items (dict_set scores name score) = Inr (scores', self')"
    by (auto split: sum.splits)
  from Cons.IH [OF r] benchmark_registry(1) [OF b] show ?case by simp
qed

lemma build_matrix_registry:
  assumes "build_matrix lib self = Inr (matrices, self')"
  shows "clfs self' = clfs self" and "heap self' = heap self"
  using assms by (auto simp: build_matrix_def Let_def split: sum.splits)

lemma train_sequential_registry:
  assumes "train_sequential lib self = Inr (keras, self')"
  shows "clfs self' = clfs self" and "heap self' = heap self"
  using assms
  by (auto simp: train_sequential_def Let_def split: sum.splits prod.splits
           dest: build_matrix_registry)

lemma train_models_candidates_clfs:
  assumes "train_models_candidates lib self = Inr (r, self')"
  shows "clfs self' = clfs self"
proof -
  from assms obtain scores self1 best best_func best_params self2 simple self3 keras where
    1: "benchmark_all lib self (clfs self) [] = Inr (scores, self1)"
    and 2: "optimize lib self1 best_func = (best_params, self2)"
    and 3: "run_best_model lib self2 best_params best = Inr (simple, self3)"
    and 4: "train_sequential lib self3 = Inr (keras, self')"
    by (auto simp: train_models_candidates_def split: sum.splits prod.splits)
  from 2 have "clfs self2 = clfs self1" by (auto simp: optimize_def Let_def)
  moreover from 3 have "clfs self3 = clfs self2"
    by (auto simp: run_best_model_def Let_def split: sum.splits)
  ultimately show ?thesis
    using benchmark_all_clfs [OF 1] train_sequential_registry(1) [OF 4] by simp
qed

text \<open>
  C4, as the code has it. Each operation is taken alone, from any object on which it
  returns. The registry keeps its names and its references in \<open>benchmark\<close>,
  \<open>run_best_model\<close>, \<open>optimize\<close>, \<open>build_matrix\<close>, \<open>train_sequential\<close> and \<open>train_models\<close>, and
  the state of the classifier objects behind the references changes as follows: the
  benchmark step fits the object it is given in place (on \<open>X_train\<close>, \<open>Y_train\<close>) and
  touches no other; the best-model refit step fits the selected object in place (on
  the training text, vectorized again with the stop-word setting of the parameters,
  and the training labels) and touches no other; the hyperparameter search leaves the
  object it is given as the library's search leaves the pipeline's estimator, and
  touches no other; \<open>build_matrix\<close> and \<open>train_sequential\<close> leave every registered object,
  and so the registry, as it was.
\<close>

theorem registry_changes:
  "(benchmark lib self c = Inr (score, self1) \<longrightarrow>
      clfs self1 = clfs self
    \<and> heap self1 = (heap self)(c := fit lib (heap self c) (X_train self) (Y_train self)))
 \<and> (run_best_model lib self best_params best_clf = Inr ((simple_score, model), self2) \<longrightarrow>
      clfs self2 = clfs self
    \<and> heap self2 = (heap self)
        (model := fit lib (heap self model)
           (snd (fit_transform lib
              (TfidfVectorizer
                 (case map_of best_params ''vect__stop_words'' of None \<Rightarrow> None | Some v \<Rightarrow> v))
              (map row_text (train self))))
           (map gender (train self))))
 \<and> (optimize lib self best_func = (params, self3) \<longrightarrow>
      clfs self3 = clfs self
    \<and> heap self3 = (heap self)
        (best_func := estimator_after
           (grid_search_fit lib (optimize_search self best_func)
              (map row_text (train self)) (map gender (train self)))))
 \<and> (build_matrix lib self = Inr (matrices, self4) \<longrightarrow>
      clfs self4 = clfs self \<and> heap self4 = heap self \<and> registry self4 = registry self)
 \<and> (train_sequential lib self = Inr (keras, self5) \<longrightarrow>
      clfs self5 = clfs self \<and> heap self5 = heap self \<and> registry self5 = registry self)
 \<and> (train_models lib self = Inr (final, self6) \<longrightarrow> clfs self6 = clfs self)"
proof (intro conjI impI)
  assume "benchmark lib self c = Inr (score, self1)"
  then show "clfs self1 = clfs self"
    and "heap self1 = (heap self)(c := fit lib (heap self c) (X_train self) (Y_train self))"
    by (rule benchmark_registry)+
next
  assume r: "run_best_model lib self best_params best_clf = Inr ((simple_score, model), self2)"
  then show "clfs self2 = clfs self"
    by (auto simp: run_best_model_def Let_def split: sum.splits)
  from r show "heap self2 = (heap self)
        (model := fit lib (heap self model)
           (snd (fit_transform lib
              (TfidfVectorizer
                 (case map_of best_params ''vect__stop_words'' of None \<Rightarrow> None | Some v \<Rightarrow> v))
              (map row_text (train self))))
           (map gender (train self)))"
    by (auto simp: run_best_model_def dict_get_def Let_def split: sum.splits)
next
  assume o: "optimize lib self best_func = (params, self3)"
  then show "clfs self3 = clfs self" by (auto simp: optimize_def Let_def)
  from o show "heap self3 = (heap self)
        (best_func := estimator_after
           (grid_search_fit lib (optimize_search self best_func)
              (map row_text (train self)) (map gender (train self))))"
    by (auto simp: optimize_def Let_def)
next
  assume "build_matrix lib self = Inr (matrices, self4)"
  then have "clfs self4 = clfs self" "heap self4 = heap self"
    by (rule build_matrix_registry)+
  then show "clfs self4 = clfs self" "heap self4 = heap self" "registry self4 = registry self"
    by (simp_all add: registry_def)
next
  assume "train_sequential lib self = Inr (keras, self5)"
  then have "clfs self5 = clfs self" "heap self5 = heap self"
    by (rule train_sequential_registry)+
  then show "clfs self5 = clfs self" "heap self5 = heap self" "registry self5 = registry self"
    by (simp_all add: registry_def)
next
  assume "train_models lib self = Inr (final, self6)"
  then obtain r where "train_models_candidates lib self = Inr (r, self6)"
    by (auto simp: train_models_def split: sum.splits prod.splits if_splits)
  then show "clfs self6 = clfs self" by (rule train_models_candidates_clfs)
qed

text \<open>
  On the small library instance, each of the six operations from the initial object.
  On the data frame with four labels \<open>train_sequential\<close> raises, and the benchmark step
  still fits the object it is given.
\<close>

theorem registry_changes_witness:
  "\<exists>self1 self2 self3 matrices self4 self5 self6 self7.
      benchmark toy_library toy_self SGD_ref = Inr (1, self1)
    \<and> run_best_model toy_library toy_self [(''vect__stop_words'', None)] ''Perceptron''
        = Inr ((1, Perceptron_ref), self2)
    \<and> optimize toy_library toy_self SGD_ref = ([(''vect__stop_words'', None)], self3)
    \<and> build_matrix toy_library toy_self = Inr (matrices, self4)
    \<and> train_sequential toy_library toy_self = Inr ((toy_network, 1), self5)
    \<and> train_models toy_library toy_self = Inr (KerasModel toy_network, self6)
    \<and> registry toy_self = [(''SVM'', None), (''Perceptron'', None)]
    \<and> registry self1 = [(''SVM'', Some ''male''), (''Perceptron'', None)]
    \<and> registry self2 = [(''SVM'', None), (''Perceptron'', Some ''male'')]
    \<and> registry self3 = [(''SVM'', None), (''Perceptron'', None)]
    \<and> registry self4 = [(''SVM'', None), (''Perceptron'', None)]
    \<and> registry self5 = [(''SVM'', None), (''Perceptron'', None)]
    \<and> clfs self6 = [(''SVM'', SGD_ref), (''Perceptron'', Perceptron_ref)]
    \<and> train_sequential toy_library (init toy_library toy_four_labels) = Inl IndexError
    \<and> benchmark toy_library (init toy_library toy_four_labels) SGD_ref = Inr (1, self7)
    \<and> registry self7 = [(''SVM'', Some ''male''), (''Perceptron'', None)]"
proof -
  have "\<exists>self1. benchmark toy_library toy_self SGD_ref = Inr (1, self1)"
    by (simp add: pipeline_defs toy_defs)
  then obtain self1 where 1: "benchmark toy_library toy_self SGD_ref = Inr (1, self1)" ..
  have "\<exists>self2. run_best_model toy_library toy_self [(''vect__stop_words'', None)] ''Perceptron''
        = Inr ((1, Perceptron_ref), self2)"
    by (simp add: pipeline_defs toy_defs)
  then obtain self2 where
    2: "run_best_model toy_library toy_self [(''vect__stop_words'', None)] ''Perceptron''
        = Inr ((1, Perceptron_ref), self2)" ..
  have "\<exists>self3. optimize toy_library toy_self SGD_ref = ([(''vect__stop_words'', None)], self3)"
    by (simp add: pipeline_defs toy_defs)
  then obtain self3 where
    3: "optimize toy_library toy_self SGD_ref = ([(''vect__stop_words'', None)], self3)" ..
  have "\<exists>matrices self4. build_matrix toy_library toy_self = Inr (matrices, self4)"
    by (simp add: pipeline_defs toy_defs)
  then obtain matrices self4 where
    4: "build_matrix toy_library toy_self = Inr (matrices, self4)" by blast
  have "\<exists>self5. train_sequential toy_library toy_self = Inr ((toy_network, 1), self5)"
    by (simp add: pipeline_defs toy_defs)
  then obtain self5 where
    5: "train_sequential toy_library toy_self = Inr ((toy_network, 1), self5)" ..
  have "\<exists>self6. train_models toy_library toy_self = Inr (KerasModel toy_network, self6)"
    by (simp add: train_models_def pipeline_defs toy_defs)
  then obtain self6 where
    6: "train_models toy_library toy_self = Inr (KerasModel toy_network, self6)" ..
  have 7: "train_sequential toy_library (init toy_library toy_four_labels) = Inl IndexError"
    by (simp add: pipeline_defs toy_four_labels_def init_def toy_library_def
          tf_idf_feature_extraction_def Let_def)
  have "\<exists>self7. benchmark toy_library (init toy_library toy_four_labels) SGD_ref = Inr (1, self7)"
    by (simp add: pipeline_defs toy_four_labels_def init_def toy_library_def
          tf_idf_feature_extraction_def Let_def accuracy_score_def)
  then obtain self7 where
    8: "benchmark toy_library (init toy_library toy_four_labels) SGD_ref = Inr (1, self7)" ..
  have reg: "registry toy_self = [(''SVM'', None), (''Perceptron'', None)]"
    by (simp add: registry_def toy_defs)
  have c: "clfs toy_self = [(''SVM'', SGD_ref), (''Perceptron'', Perceptron_ref)]"
    "heap toy_self SGD_ref = None" "heap toy_self Perceptron_ref = None"
    "Y_train toy_self = [''male'', ''female'', ''male'', ''female'']"
    "map gender (train toy_self) = [''male'', ''female'', ''male'', ''female'']"
    by (simp_all add: toy_defs)
  have d: "clfs (init toy_library toy_four_labels)
             = [(''SVM'', SGD_ref), (''Perceptron'', Perceptron_ref)]"
    "heap (init toy_library toy_four_labels) Perceptron_ref = None"
    "Y_train (init toy_library toy_four_labels) = [''male'', ''female'', ''brand'', ''unknown'']"
    by (simp_all add: toy_four_labels_def init_def toy_library_def
          tf_idf_feature_extraction_def Let_def)
  have f: "\<And>s x ys. fit toy_library s x (''male'' # ys) = Some ''male''"
    by (simp add: toy_library_def)
  have g: "\<And>texts labels. estimator_after
             (grid_search_fit toy_library (optimize_search toy_self SGD_ref) texts labels) = None"
    by (simp add: optimize_search_def toy_defs)
  note rc = registry_changes [of toy_library toy_self SGD_ref 1 self1
      "[(''vect__stop_words'', None)]" "''Perceptron''" 1 Perceptron_ref self2
      SGD_ref "[(''vect__stop_words'', None)]" self3 matrices self4
      "(toy_network, 1)" self5 "KerasModel toy_network" self6]
  from rc 1 2 3 4 5 6 have
    "registry self1 = [(''SVM'', Some ''male''), (''Perceptron'', None)]"
    "registry self2 = [(''SVM'', None), (''Perceptron'', Some ''male'')]"
    "registry self3 = [(''SVM'', None), (''Perceptron'', None)]"
    "registry self4 = [(''SVM'', None), (''Perceptron'', None)]"
    "registry self5 = [(''SVM'', None), (''Perceptron'', None)]"
    "clfs self6 = [(''SVM'', SGD_ref), (''Perceptron'', Perceptron_ref)]"
    using reg by (auto simp: registry_def c f g)
  moreover
  from registry_changes [of toy_library "init toy_library toy_four_labels" SGD_ref 1 self7] 8
  have "registry self7 = [(''SVM'', Some ''male''), (''Perceptron'', None)]"
    by (auto simp: registry_def d f)
  ultimately show ?thesis using 1 2 3 4 5 6 7 8 reg by blast
qed

text \<open>
  The claim as the spec words it (the benchmark step leaves the registry's entries
  unchanged) fails: benchmarking the first registered classifier of the small library
  instance turns the entry \<open>SVM\<close> from the unfitted into the fitted classifier.
\<close>

theorem benchmark_registry_counterexample:
  "registry toy_self = [(''SVM'', None), (''Perceptron'', None)]
   \<and> map_sum id (\<lambda>r. registry (snd r)) (benchmark toy_library toy_self SGD_ref)
       = Inr [(''SVM'', Some ''male''), (''Perceptron'', None)]"
  by (simp add: registry_def benchmark_def toy_defs)

subsection \<open>The partitions\<close>

text \<open>
  No method that runs after the constructor assigns \<^verbatim>\<open>self.train\<close> or \<^verbatim>\<open>self.test\<close>.
  How the constructor splits the data frame is the matter of \<open>train_test_split\<close>.
\<close>

lemma partitions_unchanged:
  "(benchmark lib self c = Inr (score, self1) \<longrightarrow> train self1 = train self \<and> test self1 = test self)
 \<and> (run_best_model lib self ps n = Inr (r, self2) \<longrightarrow> train self2 = train self \<and> test self2 = test self)
 \<and> (optimize lib self c = (p, self3) \<longrightarrow> train self3 = train self \<and> test self3 = test self)
 \<and> (train_sequential lib self = Inr (k, self4) \<longrightarrow> train self4 = train self \<and> test self4 = test self)"
  by (auto simp: benchmark_def run_best_model_def optimize_def train_sequential_def
        build_matrix_def Let_def split: sum.splits)

subsection \<open>The best-model refit\<close>

lemma dict_get_present: "map_of d k = Some v \<Longrightarrow> dict_get d k = v"
  by (simp add: dict_get_def)

lemma dict_getitem_present: "map_of d k = Some v \<Longrightarrow> dict_getitem d k = Inr v"
  by (simp add: dict_getitem_def)

lemma run_best_model_registered:
  assumes "map_of (clfs self) best_clf = Some c"
  shows "run_best_model lib self best_params best_clf =
     (case accuracy_score (map gender (test self))
             (predict lib
                (fit lib (heap self c)
                   (snd (fit_transform lib
                           (TfidfVectorizer (dict_get best_params ''vect__stop_words''))
                           (map row_text (train self))))
                   (map gender (train self)))
                (transform lib
                   (fst (fit_transform lib
                           (TfidfVectorizer (dict_get best_params ''vect__stop_words''))
                           (map row_text (train self))))
                   (map row_text (test self)))) of
        Inl e \<Rightarrow> Inl e
      | Inr score \<Rightarrow>
          Inr ((score, c),
               self\<lparr>heap := (heap self)
                 (c := fit lib (heap self c)
                   (snd (fit_transform lib
                           (TfidfVectorizer (dict_get best_params ''vect__stop_words''))
                           (map row_text (train self))))
                   (map gender (train self)))\<rparr>))"
  by (simp add: run_best_model_def Let_def dict_getitem_present [OF assms])

text \<open>
  C5. Let the parameter mapping give the key \<^verbatim>\<open>vect__stop_words\<close> the setting \<open>sw\<close> and
  let \<open>c\<close> be the classifier object registered under the selected name. Then
  \<open>run_best_model\<close> fits a TF-IDF vectorizer built with the stop words \<open>sw\<close> on the text
  of the whole training partition, fits \<open>c\<close>, in place, on the resulting matrix and the
  training labels, predicts on the text of the test partition as the fitted vectorizer
  transforms it, and returns the accuracy of these predictions against the test labels
  together with \<open>c\<close>; it raises only where the accuracy does.
\<close>

theorem run_best_model_refits:
  assumes "map_of best_params ''vect__stop_words'' = Some sw"
    and "map_of (clfs self) best_clf = Some c"
  shows "\<exists>vec train_matrix fitted pred.
       fit_transform lib (TfidfVectorizer sw) (map row_text (train self)) = (vec, train_matrix)
     \<and> fitted = fit lib (heap self c) train_matrix (map gender (train self))
     \<and> pred = predict lib fitted (transform lib vec (map row_text (test self)))
     \<and> run_best_model lib self best_params best_clf =
         (case accuracy_score (map gender (test self)) pred of
            Inl e \<Rightarrow> Inl e
          | Inr score \<Rightarrow> Inr ((score, c), self\<lparr>heap := (heap self)(c := fitted)\<rparr>))"
proof -
  obtain vec train_matrix where
    v: "fit_transform lib (TfidfVectorizer sw) (map row_text (train self)) = (vec, train_matrix)"
    by (cases "fit_transform lib (TfidfVectorizer sw) (map row_text (train self))")
  have "run_best_model lib self best_params best_clf =
         (case accuracy_score (map gender (test self))
                 (predict lib (fit lib (heap self c) train_matrix (map gender (train self)))
                    (transform lib vec (map row_text (test self)))) of
            Inl e \<Rightarrow> Inl e
          | Inr score \<Rightarrow>
              Inr ((score, c),
                   self\<lparr>heap := (heap self)
                     (c := fit lib (heap self c) train_matrix (map gender (train self)))\<rparr>))"
    unfolding run_best_model_registered [OF assms(2)] dict_get_present [OF assms(1)] v
    by (simp split: sum.splits)
  with v show ?thesis by blast
qed

text \<open>
  On the second library instance the setting decides the result: with the English
  stop words the refitted classifier scores 0 on the test partition, without stop
  words it scores 1.
\<close>

theorem run_best_model_refits_witness:
  "map_of [(''vect__stop_words'', Some ''english'')] ''vect__stop_words'' = Some (Some ''english'')
   \<and> map_of [(''vect__stop_words'', None :: string option)] ''vect__stop_words'' = Some None
   \<and> map_of (clfs lookup_self) ''SVM'' = Some SGD_ref
   \<and> map_sum id fst (run_best_model lookup_library lookup_self
                        [(''vect__stop_words'', Some ''english'')] ''SVM'') = Inr (0, SGD_ref)
   \<and> map_sum id fst (run_best_model lookup_library lookup_self
                        [(''vect__stop_words'', None)] ''SVM'') = Inr (1, SGD_ref)"
proof -
  have e: "map_of [(''vect__stop_words'', Some ''english'')] ''vect__stop_words''
             = Some (Some ''english'')" by simp
  have n: "map_of [(''vect__stop_words'', None :: string option)] ''vect__stop_words''
             = Some None" by simp
  have r: "map_of (clfs lookup_self) ''SVM'' = Some SGD_ref"
    by (simp add: lookup_defs)
  from run_best_model_refits [OF e r, of lookup_library]
  have 1: "map_sum id fst (run_best_model lookup_library lookup_self
                        [(''vect__stop_words'', Some ''english'')] ''SVM'') = Inr (0, SGD_ref)"
    by (auto simp: lookup_defs)
  from run_best_model_refits [OF n r, of lookup_library]
  have 2: "map_sum id fst (run_best_model lookup_library lookup_self
                        [(''vect__stop_words'', None)] ''SVM'') = Inr (1, SGD_ref)"
    by (auto simp: lookup_defs)
  from e n r 1 2 show ?thesis by blast
qed

subsection \<open>The neural text classifier\<close>

lemma to_categorical_length:
  "to_categorical ys n = Inr m \<Longrightarrow> v \<in> set m \<Longrightarrow> length v = n"
  by (auto simp: to_categorical_def one_hot_def split: if_splits)

text \<open>
  C6. When \<open>train_sequential\<close> returns a network and its score: the matrices come from
  \<open>build_matrix\<close>; the tokenizer has the vocabulary cap 2000 and is fitted on the
  training text only; both count matrices (mode \<open>count\<close>) are made by that tokenizer;
  the labels are one-hot encoded into exactly 3 classes; the network has two hidden
  layers of 6 units followed by an output layer of 3 units, the loss
  \<open>binary_crossentropy\<close> and the optimizer \<open>adam\<close>; it is trained on the training
  matrices for 5 epochs; and the score is the accuracy of its evaluation on the test
  matrices.
\<close>

theorem train_sequential_network:
  assumes "train_sequential lib self = Inr ((model, score), self')"
  shows "\<exists>x_train x_test y_train y_test tok lb.
      build_matrix lib self = Inr ((x_train, x_test, y_train, y_test), self')
    \<and> tok = \<lparr>num_words = 2000,
              word_index = Some (fit_on_texts lib (map row_text (train self)))\<rparr>
    \<and> tokenizer self' = Some tok
    \<and> x_train = texts_to_matrix lib tok (map row_text (train self)) ''count''
    \<and> x_test = texts_to_matrix lib tok (map row_text (test self)) ''count''
    \<and> lb = label_encoder_fit lib (Y_train self)
    \<and> to_categorical (label_encoder_transform lib lb (Y_train self)) 3 = Inr y_train
    \<and> to_categorical (label_encoder_transform lib lb (Y_test self)) 3 = Inr y_test
    \<and> list_all (\<lambda>v. length v = 3) (y_train @ y_test)
    \<and> map output_dim (layers model) = [6, 6, 3]
    \<and> map activation (layers model) = [''relu'', ''relu'', ''sigmoid'']
    \<and> loss model = Some ''binary_crossentropy''
    \<and> optimizer model = Some ''adam''
    \<and> weights model = Some (sequential_fit lib (model\<lparr>weights := None\<rparr>) x_train y_train 5)
    \<and> score = snd (sequential_evaluate lib model x_test y_test)"
proof -
  from assms obtain x_train x_test y_train y_test where
    bm: "build_matrix lib self = Inr ((x_train, x_test, y_train, y_test), self')"
    by (auto simp: train_sequential_def Let_def split: sum.splits)
  have len: "list_all (\<lambda>v. length v = 3) (y_train @ y_test)"
    using bm
    by (auto simp: build_matrix_def Let_def list_all_iff to_categorical_length
          split: sum.splits)
  from bm assms len show ?thesis
    by (auto simp: train_sequential_def build_matrix_def Let_def add_def compile_def
          split: sum.splits)
qed

theorem train_sequential_network_witness:
  "\<exists>self'. train_sequential toy_library toy_self = Inr ((toy_network, 1), self')
     \<and> tokenizer self' = Some \<lparr>num_words = 2000, word_index = Some ()\<rparr>
     \<and> map output_dim (layers toy_network) = [6, 6, 3]"
proof -
  have "\<exists>self'. train_sequential toy_library toy_self = Inr ((toy_network, 1), self')"
    by (simp add: pipeline_defs toy_defs)
  then obtain self' where t: "train_sequential toy_library toy_self = Inr ((toy_network, 1), self')" ..
  from train_sequential_network [OF t] t show ?thesis by auto
qed

subsection \<open>The hyperparameter optimizer\<close>

text \<open>
  C7. \<open>optimize\<close> returns the best parameters found by a grid search that is fitted on
  the training partition and that searches exactly one hyperparameter, the stop words
  of the vectorizer, over exactly the two values \<^verbatim>\<open>None\<close> and \<^verbatim>\<open>'english'\<close>, with a
  freshly constructed (default) TF-IDF vectorizer in front of the given classifier, and
  that scores by accuracy.
\<close>

theorem optimize_grid_search:
  "\<exists>gs. fst (optimize lib self best_func)
           = gs_best_params (grid_search_fit lib gs (map row_text (train self))
                               (map gender (train self)))
       \<and> param_grid gs = [(''vect__stop_words'', [None, Some ''english''])]
       \<and> scoring gs = ''accuracy''
       \<and> vect (estimator gs) = TfidfVectorizer None
       \<and> clf (estimator gs) = heap self best_func"
  by (rule exI [of _ "optimize_search self best_func"])
     (simp add: optimize_def optimize_search_def Let_def)

subsection \<open>A parameter mapping without the stop-word key\<close>

lemma dict_get_missing:
  assumes "k \<notin> fst ` set d"
  shows "dict_get d k = None"
proof -
  from assms have "map_of d k = None" by (rule map_of_eq_None_iff [THEN iffD2])
  then show ?thesis by (simp add: dict_get_def)
qed

text \<open>
  C10. When the parameter mapping has no key \<^verbatim>\<open>vect__stop_words\<close>, \<open>run_best_model\<close>
  behaves exactly as it does for the mapping that gives the key the value \<^verbatim>\<open>None\<close>.
  For the classifier object \<open>c\<close> registered under the selected name it fits a TF-IDF
  vectorizer built without stop words on the text of the training partition, fits \<open>c\<close>,
  in place, on the resulting matrix and the training labels, predicts on the
  transformed text of the test partition and returns the accuracy with \<open>c\<close>. The missing
  key raises nothing: for a non-empty test partition with one prediction per test row
  the call returns a score and \<open>c\<close>.
\<close>

theorem run_best_model_missing_key:
  assumes "''vect__stop_words'' \<notin> fst ` set best_params"
  shows "run_best_model lib self best_params best_clf
           = run_best_model lib self [(''vect__stop_words'', None)] best_clf
     \<and> (map_of (clfs self) best_clf = Some c \<longrightarrow>
          (\<exists>vec train_matrix fitted pred.
              fit_transform lib (TfidfVectorizer None) (map row_text (train self))
                = (vec, train_matrix)
            \<and> fitted = fit lib (heap self c) train_matrix (map gender (train self))
            \<and> pred = predict lib fitted (transform lib vec (map row_text (test self)))
            \<and> run_best_model lib self best_params best_clf =
                (case accuracy_score (map gender (test self)) pred of
                   Inl e \<Rightarrow> Inl e
                 | Inr score \<Rightarrow>
                     Inr ((score, c), self\<lparr>heap := (heap self)(c := fitted)\<rparr>))
            \<and> (test self \<noteq> [] \<and> length pred = length (test self) \<longrightarrow>
                 (\<exists>score. run_best_model lib self best_params best_clf
                    = Inr ((score, c), self\<lparr>heap := (heap self)(c := fitted)\<rparr>)))))"
proof (intro conjI impI)
  have g: "dict_get best_params ''vect__stop_words'' = None"
    using assms by (rule dict_get_missing)
  show "run_best_model lib self best_params best_clf
          = run_best_model lib self [(''vect__stop_words'', None)] best_clf"
  proof -
    have "dict_get [(''vect__stop_words'', None)] ''vect__stop_words'' = (None :: string option)"
      by (simp add: dict_get_def)
    then show ?thesis by (simp only: run_best_model_def g)
  qed
  assume r: "map_of (clfs self) best_clf = Some c"
  obtain vec train_matrix where
    v: "fit_transform lib (TfidfVectorizer None) (map row_text (train self))
          = (vec, train_matrix)"
    by (cases "fit_transform lib (TfidfVectorizer None) (map row_text (train self))")
  define fitted where "fitted = fit lib (heap self c) train_matrix (map gender (train self))"
  define pred where "pred = predict lib fitted (transform lib vec (map row_text (test self)))"
  have e: "run_best_model lib self best_params best_clf =
         (case accuracy_score (map gender (test self)) pred of
            Inl e \<Rightarrow> Inl e
          | Inr score \<Rightarrow> Inr ((score, c), self\<lparr>heap := (heap self)(c := fitted)\<rparr>))"
    unfolding run_best_model_registered [OF r] g v pred_def fitted_def
    by (simp split: sum.splits)
  have t: "test self \<noteq> [] \<and> length pred = length (test self) \<longrightarrow>
        (\<exists>score. run_best_model lib self best_params best_clf
           = Inr ((score, c), self\<lparr>heap := (heap self)(c := fitted)\<rparr>))"
    unfolding e by (simp add: accuracy_score_def)
  from v fitted_def pred_def e t
  show "\<exists>vec train_matrix fitted pred.
              fit_transform lib (TfidfVectorizer None) (map row_text (train self))
                = (vec, train_matrix)
            \<and> fitted = fit lib (heap self c) train_matrix (map gender (train self))
            \<and> pred = predict lib fitted (transform lib vec (map row_text (test self)))
            \<and> run_best_model lib self best_params best_clf =
                (case accuracy_score (map gender (test self)) pred of
                   Inl e \<Rightarrow> Inl e
                 | Inr score \<Rightarrow>
                     Inr ((score, c), self\<lparr>heap := (heap self)(c := fitted)\<rparr>))
            \<and> (test self \<noteq> [] \<and> length pred = length (test self) \<longrightarrow>
                 (\<exists>score. run_best_model lib self best_params best_clf
                    = Inr ((score, c), self\<lparr>heap := (heap self)(c := fitted)\<rparr>)))"
    by blast
qed

text \<open>
  On the second library instance, a mapping that has another key only: the result is
  the one of the run without stop words (accuracy 1), not the one of the run with the
  English stop words (accuracy 0).
\<close>

theorem run_best_model_missing_key_witness:
  "''vect__stop_words'' \<notin> fst ` set [(''clf__penalty'', Some ''l2'')]
   \<and> map_of (clfs lookup_self) ''SVM'' = Some SGD_ref
   \<and> test lookup_self \<noteq> []
   \<and> run_best_model lookup_library lookup_self [(''clf__penalty'', Some ''l2'')] ''SVM''
       = run_best_model lookup_library lookup_self [(''vect__stop_words'', None)] ''SVM''
   \<and> map_sum id fst (run_best_model lookup_library lookup_self
                        [(''clf__penalty'', Some ''l2'')] ''SVM'') = Inr (1, SGD_ref)
   \<and> map_sum id fst (run_best_model lookup_library lookup_self
                        [(''vect__stop_words'', Some ''english'')] ''SVM'') = Inr (0, SGD_ref)"
proof -
  have k: "''vect__stop_words'' \<notin> fst ` set [(''clf__penalty'', Some ''l2'')]" by simp
  have r: "map_of (clfs lookup_self) ''SVM'' = Some SGD_ref"
    by (simp add: lookup_defs)
  have t: "test lookup_self \<noteq> []" by (simp add: lookup_defs)
  note m = run_best_model_missing_key [OF k, of lookup_library lookup_self "''SVM''" SGD_ref]
  from m have 1:
    "run_best_model lookup_library lookup_self [(''clf__penalty'', Some ''l2'')] ''SVM''
       = run_best_model lookup_library lookup_self [(''vect__stop_words'', None)] ''SVM''"
    by (rule conjunct1)
  from m [THEN conjunct2, rule_format, OF r]
  have 2: "map_sum id fst (run_best_model lookup_library lookup_self
                        [(''clf__penalty'', Some ''l2'')] ''SVM'') = Inr (1, SGD_ref)"
    by (auto simp: lookup_defs)
  have 3: "map_sum id fst (run_best_model lookup_library lookup_self
                        [(''vect__stop_words'', Some ''english'')] ''SVM'') = Inr (0, SGD_ref)"
    by (simp add: run_best_model_def dict_get_def dict_getitem_def lookup_defs)
  from k r t 1 2 3 show ?thesis by blast
qed

end
